theory Spec2Isabelle
  imports Complex_Main "HOL-Library.List_Lexorder" "HOL-Library.Char_ord" "HOL-Library.Product_Lexorder"
begin

section \<open>UtiliHive collector: the fetch windows\<close>

subsection \<open>Naive datetimes\<close>

text \<open>
  The collector works on naive \<^verbatim>\<open>datetime\<close> values. A datetime is modelled by the number
  of microseconds since 0001-01-01T00:00:00, the smallest value of the type; the largest is
  9999-12-31T23:59:59.999999. Adding or subtracting a \<^verbatim>\<open>timedelta\<close> that leaves this range
  raises \<^verbatim>\<open>OverflowError\<close> in Python, so both operations return a sum.
\<close>

type_synonym datetime = int

datatype py_error = OverflowError | AttributeError | TypeError | ValueError

definition US_PER_HOUR :: int where
  "US_PER_HOUR = 3600000000"

definition US_PER_DAY :: int where
  "US_PER_DAY = 24 * US_PER_HOUR"

definition DATETIME_MAX :: datetime where
  "DATETIME_MAX = 3652059 * US_PER_DAY - 1"

definition valid_datetime :: "datetime \<Rightarrow> bool" where
  "valid_datetime t \<longleftrightarrow> 0 \<le> t \<and> t \<le> DATETIME_MAX"

text \<open>\<^verbatim>\<open>timedelta(hours=h)\<close>, in microseconds.\<close>

definition timedelta_hours :: "int \<Rightarrow> int" where
  "timedelta_hours h = h * US_PER_HOUR"

definition dt_add :: "datetime \<Rightarrow> int \<Rightarrow> py_error + datetime" where
  "dt_add t d = (if valid_datetime (t + d) then Inr (t + d) else Inl OverflowError)"

definition dt_sub :: "datetime \<Rightarrow> int \<Rightarrow> py_error + datetime" where
  "dt_sub t d = (if valid_datetime (t - d) then Inr (t - d) else Inl OverflowError)"

text \<open>The calendar day of a datetime (days since 0001-01-01) and its hour of the day.\<close>

definition date_of :: "datetime \<Rightarrow> int" where
  "date_of t = t div US_PER_DAY"

definition hour_of :: "datetime \<Rightarrow> int" where
  "hour_of t = (t mod US_PER_DAY) div US_PER_HOUR"

text \<open>
  \<^verbatim>\<open>t.replace(hour=h, minute=m, second=s, microsecond=us)\<close>: the day is kept and the time
  of day is replaced.
\<close>

definition replace_time :: "datetime \<Rightarrow> int \<Rightarrow> int \<Rightarrow> int \<Rightarrow> int \<Rightarrow> datetime" where
  "replace_time t h m s us = date_of t * US_PER_DAY + ((h * 60 + m) * 60 + s) * 1000000 + us"

subsection \<open>generate_hourly_ranges\<close>

definition TIMEZONE_OFFSET_HOURS :: int where
  "TIMEZONE_OFFSET_HOURS = 1"

text \<open>One element of \<^verbatim>\<open>ranges\<close>: the tuple (from_datetime_utc, to_datetime_utc, current_datetime).\<close>

record window =
  from_utc :: datetime
  to_utc :: datetime
  local_datetime :: datetime

text \<open>
  The body of the \<^verbatim>\<open>while\<close> loop for one value of \<^verbatim>\<open>current_datetime\<close>: the window that is
  appended and the next value of \<^verbatim>\<open>current_datetime\<close>, or the error of the first datetime
  operation that leaves the range.
\<close>

definition hourly_step :: "datetime \<Rightarrow> py_error + (window \<times> datetime)" where
  "hourly_step current_datetime =
     (case dt_sub current_datetime (timedelta_hours TIMEZONE_OFFSET_HOURS) of
        Inl e \<Rightarrow> Inl e
      | Inr from_datetime_utc \<Rightarrow>
     (case dt_add current_datetime (timedelta_hours 1) of
        Inl e \<Rightarrow> Inl e
      | Inr next_hour \<Rightarrow>
     (case dt_sub next_hour (timedelta_hours TIMEZONE_OFFSET_HOURS) of
        Inl e \<Rightarrow> Inl e
      | Inr to_datetime_utc \<Rightarrow>
     (case dt_add current_datetime (timedelta_hours 1) of
        Inl e \<Rightarrow> Inl e
      | Inr current_datetime' \<Rightarrow>
          Inr (\<lparr>from_utc = from_datetime_utc, to_utc = to_datetime_utc,
                local_datetime = current_datetime\<rparr>, current_datetime')))))"

function hourly_loop :: "datetime \<Rightarrow> datetime \<Rightarrow> window list \<Rightarrow> py_error + window list" where
  "hourly_loop current_datetime end_datetime ranges =
     (if current_datetime \<le> end_datetime then
        (case hourly_step current_datetime of
           Inl e \<Rightarrow> Inl e
         | Inr (w, current_datetime') \<Rightarrow> hourly_loop current_datetime' end_datetime (ranges @ [w]))
      else Inr ranges)"
  by pat_completeness auto
termination
proof (relation "measure (\<lambda>(c, e, r). nat (e - c + 1))")
  show "wf (measure (\<lambda>(c, e, r). nat (e - c + 1)))" by simp
next
  fix current_datetime end_datetime :: datetime and ranges :: "window list"
    and x2 :: "window \<times> datetime" and x y
  assume le: "current_datetime \<le> end_datetime"
    and step: "hourly_step current_datetime = Inr x2" and x2: "(x, y) = x2"
  from step x2 have "y = current_datetime + US_PER_HOUR"
    by (auto simp: hourly_step_def dt_add_def dt_sub_def timedelta_hours_def
             split: sum.splits if_splits)
  with le show "((y, end_datetime, ranges @ [x]), (current_datetime, end_datetime, ranges))
          \<in> measure (\<lambda>(c, e, r). nat (e - c + 1))"
    by (simp add: US_PER_HOUR_def)
qed

definition generate_hourly_ranges :: "datetime \<Rightarrow> datetime \<Rightarrow> py_error + window list" where
  "generate_hourly_ranges start_date end_date =
     (let current_datetime = replace_time start_date 0 0 0 0;
          end_datetime = replace_time end_date 23 59 59 999999
      in hourly_loop current_datetime end_datetime [])"

section \<open>Payloads and flattened records\<close>

subsection \<open>JSON values\<close>

text \<open>
  What \<^verbatim>\<open>response.json()\<close> returns: Python's \<^verbatim>\<open>None\<close> is \<open>JNull\<close>, a \<^verbatim>\<open>dict\<close> is an
  association list in which the last binding of a key wins, numbers are exact rationals.
\<close>

datatype json =
    JNull
  | JBool bool
  | JNum rat
  | JStr string
  | JArr "json list"
  | JObj "(string \<times> json) list"

text \<open>Python truthiness: \<^verbatim>\<open>not data\<close> holds for None, False, 0, the empty string, [] and {}.\<close>

fun truthy :: "json \<Rightarrow> bool" where
  "truthy JNull = False"
| "truthy (JBool b) = b"
| "truthy (JNum q) = (q \<noteq> 0)"
| "truthy (JStr s) = (s \<noteq> [])"
| "truthy (JArr xs) = (xs \<noteq> [])"
| "truthy (JObj kvs) = (kvs \<noteq> [])"

text \<open>\<^verbatim>\<open>d.get(k, default)\<close> on the entries of a \<^verbatim>\<open>dict\<close>.\<close>

definition dict_get :: "(string \<times> json) list \<Rightarrow> string \<Rightarrow> json \<Rightarrow> json" where
  "dict_get kvs k dflt = (case map_of (rev kvs) k of None \<Rightarrow> dflt | Some v \<Rightarrow> v)"

text \<open>
  \<^verbatim>\<open>x.get(k, default)\<close> on any value: only a \<^verbatim>\<open>dict\<close> has the method, every other value
  raises \<^verbatim>\<open>AttributeError\<close>.
\<close>

fun py_get :: "json \<Rightarrow> string \<Rightarrow> json \<Rightarrow> py_error + json" where
  "py_get (JObj kvs) k dflt = Inr (dict_get kvs k dflt)"
| "py_get _ k dflt = Inl AttributeError"

text \<open>
  \<^verbatim>\<open>for metric in metrics\<close>: a list yields its elements, a \<^verbatim>\<open>dict\<close> its keys, a string its
  characters; None, a boolean and a number are not iterable and raise \<^verbatim>\<open>TypeError\<close>.
\<close>

fun py_iter :: "json \<Rightarrow> py_error + json list" where
  "py_iter (JArr xs) = Inr xs"
| "py_iter (JObj kvs) = Inr (map (\<lambda>k. JStr k) (remdups (map fst kvs)))"
| "py_iter (JStr s) = Inr (map (\<lambda>c. JStr [c]) s)"
| "py_iter _ = Inl TypeError"

text \<open>A list or a \<^verbatim>\<open>dict\<close> cannot be the key of a \<^verbatim>\<open>dict\<close>.\<close>

fun hashable :: "json \<Rightarrow> bool" where
  "hashable (JArr xs) = False"
| "hashable (JObj kvs) = False"
| "hashable _ = True"

subsection \<open>The flattening loop of save_to_csv_hourly\<close>

text \<open>
  \<^verbatim>\<open>metrics_dict\<close> maps a metric id to the last value stored under it. It is only ever read
  at string keys, so Python's identification of the keys 1, 1.0 and True plays no role.
\<close>

type_synonym metrics_dict = "json \<rightharpoonup> json"

fun metrics_loop :: "json list \<Rightarrow> metrics_dict \<Rightarrow> py_error + metrics_dict" where
  "metrics_loop [] metrics_dict = Inr metrics_dict"
| "metrics_loop (metric # rest) metrics_dict =
     (case py_get metric ''metricId'' (JStr []) of
        Inl e \<Rightarrow> Inl e
      | Inr metric_id \<Rightarrow>
     (case py_get metric ''value'' (JNum 0) of
        Inl e \<Rightarrow> Inl e
      | Inr metric_value \<Rightarrow>
          if hashable metric_id
          then metrics_loop rest (metrics_dict(metric_id \<mapsto> metric_value))
          else Inl TypeError))"

definition metrics_get :: "metrics_dict \<Rightarrow> string \<Rightarrow> json \<Rightarrow> json" where
  "metrics_get metrics_dict k dflt = (case metrics_dict (JStr k) of None \<Rightarrow> dflt | Some v \<Rightarrow> v)"

text \<open>
  One row of the hourly file. The three columns written with \<^verbatim>\<open>strftime\<close> are kept as the
  values they render: the local datetime cut to whole seconds, its calendar day and its hour.
  \<open>collection_timestamp\<close> is the reading of the clock.
\<close>

record flat_record =
  datetime_col :: datetime
  date_col :: int
  hour_col :: int
  collection_timestamp :: datetime
  flow_id :: json
  flow_name :: json
  flow_state :: json
  total_exchanges :: json
  successful_exchanges :: json
  failed_exchanges :: json
  inflight_exchanges :: json
  avg_response_time_ms :: json
  avg_processing_time_ms :: json

text \<open>The body of the loop over \<^verbatim>\<open>records\<close> for an entry that is a \<^verbatim>\<open>dict\<close>.\<close>

definition flatten_entry ::
  "datetime \<Rightarrow> datetime \<Rightarrow> (string \<times> json) list \<Rightarrow> py_error + flat_record" where
  "flatten_entry now collection_datetime record =
     (let flow_details = dict_get record ''flowDetails'' (JObj []);
          metrics = dict_get record ''metrics'' (JArr [])
      in
     (case py_get flow_details ''flowId'' (JStr ''unknown'') of
        Inl e \<Rightarrow> Inl e
      | Inr flow_id' \<Rightarrow>
     (case py_get flow_details ''flowName'' (JStr []) of
        Inl e \<Rightarrow> Inl e
      | Inr flow_name' \<Rightarrow>
     (case py_get flow_details ''flowState'' (JStr []) of
        Inl e \<Rightarrow> Inl e
      | Inr flow_state' \<Rightarrow>
     (case py_iter metrics of
        Inl e \<Rightarrow> Inl e
      | Inr ms \<Rightarrow>
     (case metrics_loop ms Map.empty of
        Inl e \<Rightarrow> Inl e
      | Inr metrics_dict \<Rightarrow>
          Inr \<lparr>datetime_col = collection_datetime - collection_datetime mod 1000000,
               date_col = date_of collection_datetime,
               hour_col = hour_of collection_datetime,
               collection_timestamp = now,
               flow_id = flow_id',
               flow_name = flow_name',
               flow_state = flow_state',
               total_exchanges = metrics_get metrics_dict ''total-exchanges'' (JNum 0),
               successful_exchanges = metrics_get metrics_dict ''successful-exchanges'' (JNum 0),
               failed_exchanges = metrics_get metrics_dict ''failed-exchanges'' (JNum 0),
               inflight_exchanges = metrics_get metrics_dict ''inflight-exchanges'' (JNum 0),
               avg_response_time_ms =
                 metrics_get metrics_dict ''avg-response-time-millis'' (JNum 0),
               avg_processing_time_ms =
                 metrics_get metrics_dict ''avg-processing-time-millis'' (JNum 0)\<rparr>))))))"

text \<open>The loop over \<^verbatim>\<open>records\<close>: an entry that is not a \<^verbatim>\<open>dict\<close> is passed over.\<close>

fun flatten_loop ::
  "datetime \<Rightarrow> datetime \<Rightarrow> json list \<Rightarrow> flat_record list \<Rightarrow> py_error + flat_record list" where
  "flatten_loop now collection_datetime [] flattened_records = Inr flattened_records"
| "flatten_loop now collection_datetime (JObj record # rest) flattened_records =
     (case flatten_entry now collection_datetime record of
        Inl e \<Rightarrow> Inl e
      | Inr flat_record \<Rightarrow>
          flatten_loop now collection_datetime rest (flattened_records @ [flat_record]))"
| "flatten_loop now collection_datetime (_ # rest) flattened_records =
     flatten_loop now collection_datetime rest flattened_records"

subsection \<open>The hourly file\<close>

text \<open>
  A CSV file is the list of its lines, a header line or a data row; a path at which no file
  exists is \<open>None\<close>. Opening a file for appending creates it when it does not exist.
  Creating the directory and failures of the file system are not modelled.
\<close>

datatype 'r csv_line = Header | Row 'r

type_synonym 'r csv_file = "'r csv_line list option"

definition open_append :: "'r csv_file \<Rightarrow> 'r csv_line list" where
  "open_append f = (case f of None \<Rightarrow> [] | Some ls \<Rightarrow> ls)"

text \<open>Lines 196 to 226: the file after the \<^verbatim>\<open>with open(csv_file, 'a')\<close> block.\<close>

definition append_records ::
  "flat_record csv_file \<Rightarrow> flat_record list \<Rightarrow> flat_record csv_file" where
  "append_records csv_file flattened_records =
     (let file_exists = (csv_file \<noteq> None);
          f = open_append csv_file
      in if flattened_records \<noteq> []
         then Some (f @ (if \<not> file_exists then [Header] else []) @ map Row flattened_records)
         else Some f)"

text \<open>
  \<^verbatim>\<open>save_to_csv_hourly(data, csv_file, collection_datetime)\<close>: the records returned and the
  file afterwards, or the exception that leaves the function.
\<close>

definition save_to_csv_hourly ::
  "datetime \<Rightarrow> json \<Rightarrow> flat_record csv_file \<Rightarrow> datetime
     \<Rightarrow> py_error + (flat_record list \<times> flat_record csv_file)" where
  "save_to_csv_hourly now data csv_file collection_datetime =
     (if \<not> truthy data then Inr ([], csv_file)
      else
        (case (case data of JObj kvs \<Rightarrow> Some [data] | JArr xs \<Rightarrow> Some xs | _ \<Rightarrow> None) of
           None \<Rightarrow> Inr ([], csv_file)
         | Some records \<Rightarrow>
        (case flatten_loop now collection_datetime records [] of
           Inl e \<Rightarrow> Inl e
         | Inr flattened_records \<Rightarrow>
             Inr (flattened_records, append_records csv_file flattened_records))))"

section \<open>The daily aggregation\<close>

subsection \<open>Reading the hourly file with pandas\<close>

text \<open>
  \<^verbatim>\<open>pd.read_csv\<close> takes the first line of the file as the column names and the other lines as
  the rows; a file without any line raises \<^verbatim>\<open>EmptyDataError\<close>. When the first line is a data
  row, no column is named \<^verbatim>\<open>date\<close> and \<^verbatim>\<open>groupby\<close> raises \<^verbatim>\<open>KeyError\<close>.

  A cell is read back typed. An empty cell (written for None and for the empty string) and
  the texts of \<open>na_values\<close> are read as NaN. The model covers the cells the collector writes
  for a well-formed payload: a string or None in the three flow columns, a number or None in
  the six metric columns. Other cells (a number in a flow column, text in a metric column, a
  header line among the rows) depend on the type inference of pandas over the whole column
  and are outside the model: \<open>read_rows\<close> is \<open>None\<close> for them. Numbers are exact; the rounding
  of float64 and the range of int64 are not modelled.
\<close>

datatype pd_error = EmptyDataError | KeyError

definition na_values :: "string list" where
  "na_values = ['''', ''#N/A'', ''#N/A N/A'', ''#NA'', ''-1.#IND'', ''-1.#QNAN'', ''-NaN'',
     ''-nan'', ''1.#IND'', ''1.#QNAN'', ''<NA>'', ''N/A'', ''NA'', ''NULL'', ''NaN'', ''None'',
     ''n/a'', ''nan'', ''null'']"

fun text_cell :: "json \<Rightarrow> string option option" where
  "text_cell (JStr s) = Some (if s \<in> set na_values then None else Some s)"
| "text_cell JNull = Some None"
| "text_cell _ = None"

fun num_cell :: "json \<Rightarrow> rat option option" where
  "num_cell (JNum q) = Some (Some q)"
| "num_cell JNull = Some None"
| "num_cell _ = None"

text \<open>A row of the data frame: the columns the aggregation uses; \<open>None\<close> is NaN.\<close>

record frame_row =
  df_date :: int
  df_flow_id :: "string option"
  df_flow_name :: "string option"
  df_flow_state :: "string option"
  df_total_exchanges :: "rat option"
  df_successful_exchanges :: "rat option"
  df_failed_exchanges :: "rat option"
  df_inflight_exchanges :: "rat option"
  df_avg_response_time_ms :: "rat option"
  df_avg_processing_time_ms :: "rat option"

definition read_row :: "flat_record \<Rightarrow> frame_row option" where
  "read_row r =
     (case (text_cell (flow_id r), text_cell (flow_name r), text_cell (flow_state r)) of
        (Some i, Some n, Some s) \<Rightarrow>
          (case (num_cell (total_exchanges r), num_cell (successful_exchanges r),
                 num_cell (failed_exchanges r)) of
             (Some t, Some su, Some f) \<Rightarrow>
               (case (num_cell (inflight_exchanges r), num_cell (avg_response_time_ms r),
                      num_cell (avg_processing_time_ms r)) of
                  (Some ie, Some rt, Some pt) \<Rightarrow>
                    Some \<lparr>df_date = date_col r, df_flow_id = i, df_flow_name = n,
                          df_flow_state = s, df_total_exchanges = t,
                          df_successful_exchanges = su, df_failed_exchanges = f,
                          df_inflight_exchanges = ie, df_avg_response_time_ms = rt,
                          df_avg_processing_time_ms = pt\<rparr>
                | _ \<Rightarrow> None)
           | _ \<Rightarrow> None)
      | _ \<Rightarrow> None)"

fun read_rows :: "flat_record csv_line list \<Rightarrow> frame_row list option" where
  "read_rows [] = Some []"
| "read_rows (Header # ls) = None"
| "read_rows (Row r # ls) =
     (case read_row r of
        None \<Rightarrow> None
      | Some x \<Rightarrow> (case read_rows ls of None \<Rightarrow> None | Some xs \<Rightarrow> Some (x # xs)))"

subsection \<open>groupby and agg\<close>

text \<open>
  \<^verbatim>\<open>groupby(['date', 'flow_id', 'flow_name', 'flow_state'])\<close> with the defaults of pandas: a
  row with NaN in a key column belongs to no group, and the groups come out sorted by key.
  \<^verbatim>\<open>sum\<close> and \<^verbatim>\<open>mean\<close> pass over NaN; the mean of no value is NaN.
\<close>

type_synonym group_key = "int \<times> string \<times> string \<times> string"

definition row_key :: "frame_row \<Rightarrow> group_key option" where
  "row_key x =
     (case (df_flow_id x, df_flow_name x, df_flow_state x) of
        (Some i, Some n, Some s) \<Rightarrow> Some (df_date x, i, n, s)
      | _ \<Rightarrow> None)"

definition group_keys :: "frame_row list \<Rightarrow> group_key list" where
  "group_keys df = sort (remdups (List.map_filter row_key df))"

definition group_rows :: "frame_row list \<Rightarrow> group_key \<Rightarrow> frame_row list" where
  "group_rows df k = filter (\<lambda>x. row_key x = Some k) df"

definition present :: "rat option list \<Rightarrow> rat list" where
  "present cells = List.map_filter (\<lambda>c. c) cells"

definition agg_sum :: "rat option list \<Rightarrow> rat" where
  "agg_sum cells = sum_list (present cells)"

definition agg_mean :: "rat option list \<Rightarrow> rat option" where
  "agg_mean cells =
     (if present cells = [] then None
      else Some (sum_list (present cells) / of_nat (length (present cells))))"

text \<open>One row of the daily file, in the column order of lines 266 to 278.\<close>

record daily_row =
  daily_date :: int
  daily_collection_timestamp :: datetime
  daily_flow_id :: string
  daily_flow_name :: string
  daily_flow_state :: string
  daily_total_exchanges :: rat
  daily_successful_exchanges :: rat
  daily_failed_exchanges :: rat
  daily_inflight_exchanges :: "rat option"
  daily_avg_response_time_ms :: "rat option"
  daily_avg_processing_time_ms :: "rat option"

definition agg_group :: "datetime \<Rightarrow> frame_row list \<Rightarrow> group_key \<Rightarrow> daily_row" where
  "agg_group now df k =
     (let g = group_rows df k in
      (case k of (d, i, n, s) \<Rightarrow>
        \<lparr>daily_date = d,
         daily_collection_timestamp = now,
         daily_flow_id = i,
         daily_flow_name = n,
         daily_flow_state = s,
         daily_total_exchanges = agg_sum (map df_total_exchanges g),
         daily_successful_exchanges = agg_sum (map df_successful_exchanges g),
         daily_failed_exchanges = agg_sum (map df_failed_exchanges g),
         daily_inflight_exchanges = agg_mean (map df_inflight_exchanges g),
         daily_avg_response_time_ms = agg_mean (map df_avg_response_time_ms g),
         daily_avg_processing_time_ms = agg_mean (map df_avg_processing_time_ms g)\<rparr>))"

definition daily_agg :: "datetime \<Rightarrow> frame_row list \<Rightarrow> daily_row list" where
  "daily_agg now df = map (agg_group now df) (group_keys df)"

subsection \<open>aggregate_to_daily\<close>

text \<open>
  What a call of \<^verbatim>\<open>aggregate_to_daily\<close> prints before it returns: one of the two warnings,
  the error message of the \<^verbatim>\<open>except\<close> branch, or the success message with the number of
  daily records. \<open>OutsideModel\<close> stands for a file with cells that \<open>read_rows\<close> does not cover.
\<close>

datatype agg_outcome =
    WarnHourlyNotFound
  | WarnNoData
  | ErrorAggregating pd_error
  | DailySaved nat
  | OutsideModel

text \<open>
  The function returns normally on every path; the result is what it printed and the daily
  file afterwards. \<^verbatim>\<open>to_csv\<close> replaces the daily file by the header and the rows.
\<close>

definition aggregate_to_daily ::
  "datetime \<Rightarrow> flat_record csv_file \<Rightarrow> daily_row csv_file
     \<Rightarrow> agg_outcome \<times> daily_row csv_file" where
  "aggregate_to_daily now hourly_csv_file daily_csv_file =
     (case hourly_csv_file of
        None \<Rightarrow> (WarnHourlyNotFound, daily_csv_file)
      | Some [] \<Rightarrow> (ErrorAggregating EmptyDataError, daily_csv_file)
      | Some (columns # lines) \<Rightarrow>
          if lines = [] then (WarnNoData, daily_csv_file)
          else if columns \<noteq> Header then (ErrorAggregating KeyError, daily_csv_file)
          else
            (case read_rows lines of
               None \<Rightarrow> (OutsideModel, daily_csv_file)
             | Some df \<Rightarrow>
                 (DailySaved (length (daily_agg now df)),
                  Some (Header # map Row (daily_agg now df)))))"

section \<open>The run\<close>

subsection \<open>load_token\<close>

text \<open>
  The token file as \<^verbatim>\<open>load_token\<close> sees it. \<open>Unreadable\<close> is a file whose reading raises
  inside the \<^verbatim>\<open>try\<close> block (it cannot be opened, or is not a JSON object). \<open>TokenData\<close> holds
  \<^verbatim>\<open>token_data.get('token')\<close> and the expiry entry: absent, a value on which
  \<^verbatim>\<open>datetime.fromisoformat\<close> or the comparison raises, or the parsed datetime.
\<close>

datatype expiry = NoExpiry | BadExpiry | ExpiresAt datetime

datatype token_file = NoTokenFile | Unreadable | TokenData json expiry

datatype log_msg =
    TokenExpired datetime
  | TokenExpiresIn int
  | TokenLoadedFromFile
  | ErrorLoadingToken
  | TokenLoadedFromEnv
  | NoTokenFound
  | NoDataRetrieved
  | Aggregation agg_outcome

text \<open>Lines 73 to 79: the environment variable, \<open>None\<close> when it is not set.\<close>

definition env_token :: "string option \<Rightarrow> json \<times> log_msg list" where
  "env_token api_token_env =
     (case api_token_env of
        None \<Rightarrow> (JNull, [])
      | Some token \<Rightarrow> if token \<noteq> [] then (JStr token, [TokenLoadedFromEnv]) else (JNull, []))"

text \<open>The token returned (\<open>JNull\<close> for None) and the messages printed.\<close>

definition load_token :: "token_file \<Rightarrow> string option \<Rightarrow> datetime \<Rightarrow> json \<times> log_msg list" where
  "load_token tf api_token_env now =
     (case tf of
        NoTokenFile \<Rightarrow> env_token api_token_env
      | Unreadable \<Rightarrow>
          (case env_token api_token_env of (t, l) \<Rightarrow> (t, ErrorLoadingToken # l))
      | TokenData token expires \<Rightarrow>
          if \<not> truthy token then (JNull, [])
          else
            (case expires of
               NoExpiry \<Rightarrow> (token, [TokenLoadedFromFile])
             | BadExpiry \<Rightarrow>
                 (case env_token api_token_env of (t, l) \<Rightarrow> (t, ErrorLoadingToken # l))
             | ExpiresAt expires_at \<Rightarrow>
                 if now \<ge> expires_at then (JNull, [TokenExpired expires_at])
                 else (token, [TokenExpiresIn (expires_at - now), TokenLoadedFromFile])))"

subsection \<open>fetch_data\<close>

text \<open>
  The remote API is a parameter of the run: \<open>request from_date to_date\<close> is the decoded body
  of the response, or \<open>None\<close> when \<^verbatim>\<open>requests.get\<close>, \<^verbatim>\<open>raise_for_status\<close> or
  \<^verbatim>\<open>response.json\<close> raises a \<^verbatim>\<open>RequestException\<close>. \<^verbatim>\<open>fetch_data\<close> returns None then.
\<close>

type_synonym request = "datetime \<Rightarrow> datetime \<Rightarrow> json option"

definition fetch_data :: "request \<Rightarrow> datetime \<Rightarrow> datetime \<Rightarrow> json" where
  "fetch_data request from_date to_date =
     (case request from_date to_date of None \<Rightarrow> JNull | Some body \<Rightarrow> body)"

subsection \<open>main\<close>

text \<open>
  What is outside the process and outlives it: the hourly and the daily file of the day of
  the run, the requests sent to the API, and those of the messages printed that tell the outcomes
  apart.
\<close>

record world =
  hourly_csv :: "flat_record csv_file"
  daily_csv :: "daily_row csv_file"
  api_calls :: "(datetime \<times> datetime) list"
  printed :: "log_msg list"

text \<open>The local variables of the loop of \<^verbatim>\<open>main\<close>.\<close>

record counters =
  total_records :: nat
  successful_hours :: nat
  all_hourly_records :: "flat_record list"

text \<open>
  The loop over \<^verbatim>\<open>hourly_ranges\<close>. An exception of \<^verbatim>\<open>save_to_csv_hourly\<close> is not caught and
  ends the run; it is returned with the world as it is then. The pause between two requests
  changes nothing that is modelled. The clock is read once for the whole run.
\<close>

fun fetch_loop ::
  "datetime \<Rightarrow> request \<Rightarrow> window list \<Rightarrow> world \<Rightarrow> counters
     \<Rightarrow> py_error option \<times> world \<times> counters" where
  "fetch_loop now request [] w c = (None, w, c)"
| "fetch_loop now request (r # hourly_ranges) w c =
     (let data = fetch_data request (from_utc r) (to_utc r);
          w1 = w\<lparr>api_calls := api_calls w @ [(from_utc r, to_utc r)]\<rparr>
      in if truthy data then
           (case save_to_csv_hourly now data (hourly_csv w1) (local_datetime r) of
              Inl e \<Rightarrow> (Some e, w1, c)
            | Inr (records, f) \<Rightarrow>
                fetch_loop now request hourly_ranges (w1\<lparr>hourly_csv := f\<rparr>)
                  (c\<lparr>all_hourly_records := all_hourly_records c @ records,
                     total_records :=
                       total_records c + (case data of JArr xs \<Rightarrow> length xs | _ \<Rightarrow> 1),
                     successful_hours := successful_hours c + 1\<rparr>))
         else
           fetch_loop now request hourly_ranges
             (w1\<lparr>printed := printed w1 @ [NoDataRetrieved]\<rparr>) c)"

text \<open>
  The environment variables \<^verbatim>\<open>START_DATE\<close> and \<^verbatim>\<open>END_DATE\<close>: not set (or empty), a text that
  \<^verbatim>\<open>strptime\<close> rejects with \<^verbatim>\<open>ValueError\<close>, or a date. \<^verbatim>\<open>START_DATE\<close> and \<^verbatim>\<open>END_DATE\<close> are
  not defined in the module, so without both variables the range is the last \<^verbatim>\<open>DAYS_BACK\<close>
  days.
\<close>

datatype env_date = Unset | Malformed | Date datetime

definition DAYS_BACK :: int where
  "DAYS_BACK = 2"

definition days_back_range :: "datetime \<Rightarrow> py_error + (datetime \<times> datetime)" where
  "days_back_range now =
     (case dt_sub now (DAYS_BACK * US_PER_DAY) of
        Inl e \<Rightarrow> Inl e
      | Inr start_date \<Rightarrow> Inr (start_date, now))"

fun date_range :: "env_date \<Rightarrow> env_date \<Rightarrow> datetime \<Rightarrow> py_error + (datetime \<times> datetime)" where
  "date_range Unset end_date_env now = days_back_range now"
| "date_range start_date_env Unset now = days_back_range now"
| "date_range Malformed end_date_env now = Inl ValueError"
| "date_range (Date start_date) Malformed now = Inl ValueError"
| "date_range (Date start_date) (Date end_date) now = Inr (start_date, end_date)"

record inputs =
  token_file_state :: token_file
  api_token_env :: "string option"
  start_date_env :: env_date
  end_date_env :: env_date
  clock :: datetime
  api :: "json \<Rightarrow> request"

text \<open>The collection summary printed at the end of a run.\<close>

record summary =
  summary_successful_hours :: nat
  summary_total_hours :: nat
  summary_total_records :: nat

text \<open>
  How a run ends: \<^verbatim>\<open>sys.exit\<close> with a status, an exception that nothing catches, or the
  collection summary.
\<close>

datatype run_result = Exit nat | Raised py_error | Summary summary

definition main :: "inputs \<Rightarrow> world \<Rightarrow> run_result \<times> world" where
  "main inp w0 =
     (case load_token (token_file_state inp) (api_token_env inp) (clock inp) of
        (API_TOKEN, msgs) \<Rightarrow>
     (let w1 = w0\<lparr>printed := printed w0 @ msgs\<rparr> in
      if \<not> truthy API_TOKEN then (Exit 1, w1\<lparr>printed := printed w1 @ [NoTokenFound]\<rparr>)
      else
     (case date_range (start_date_env inp) (end_date_env inp) (clock inp) of
        Inl e \<Rightarrow> (Raised e, w1)
      | Inr (start_date, end_date) \<Rightarrow>
     (case generate_hourly_ranges start_date end_date of
        Inl e \<Rightarrow> (Raised e, w1)
      | Inr hourly_ranges \<Rightarrow>
     (case fetch_loop (clock inp) (api inp API_TOKEN) hourly_ranges w1
             \<lparr>total_records = 0, successful_hours = 0, all_hourly_records = []\<rparr> of
        (Some e, w2, c) \<Rightarrow> (Raised e, w2)
      | (None, w2, c) \<Rightarrow>
     (case aggregate_to_daily (clock inp) (hourly_csv w2) (daily_csv w2) of
        (outcome, daily_csv_file) \<Rightarrow>
          (Summary \<lparr>summary_successful_hours = successful_hours c,
                    summary_total_hours = length hourly_ranges,
                    summary_total_records = total_records c\<rparr>,
           w2\<lparr>daily_csv := daily_csv_file,
              printed := printed w2 @ [Aggregation outcome]\<rparr>)))))))"

section \<open>Vocabulary and example inputs of the properties\<close>

text \<open>The window whose local time is \<open>i\<close> hours after \<open>c\<close>, for the offset of one hour.\<close>

definition nth_window :: "datetime \<Rightarrow> nat \<Rightarrow> window" where
  "nth_window c i =
     \<lparr>from_utc = c + int i * US_PER_HOUR - US_PER_HOUR,
      to_utc = c + int i * US_PER_HOUR,
      local_datetime = c + int i * US_PER_HOUR\<rparr>"

text \<open>Inputs and a world to run \<^verbatim>\<open>main\<close> on: no file exists and nothing was requested yet.\<close>

definition fresh_world :: world where
  "fresh_world = \<lparr>hourly_csv = None, daily_csv = None, api_calls = [], printed = []\<rparr>"

text \<open>An API on which every request fails.\<close>

definition api_down :: "json \<Rightarrow> request" where
  "api_down token from_date to_date = None"

text \<open>
  A run on 2024-01-10 at noon with a token in the environment, asked for the range from
  2024-01-02 back to 2024-01-01.
\<close>

definition reversed_inputs :: inputs where
  "reversed_inputs =
     \<lparr>token_file_state = NoTokenFile, api_token_env = Some ''secret'',
      start_date_env = Date (738886 * US_PER_DAY), end_date_env = Date (738885 * US_PER_DAY),
      clock = 738894 * US_PER_DAY + 12 * US_PER_HOUR, api = api_down\<rparr>"

text \<open>
  Two runs on 2024-01-10 at noon against an API that would answer nothing: one without
  token file and without \<^verbatim>\<open>API_TOKEN\<close>, one whose token file holds a token that expired at
  the start of that day.
\<close>

definition missing_token_inputs :: inputs where
  "missing_token_inputs =
     \<lparr>token_file_state = NoTokenFile, api_token_env = None,
      start_date_env = Unset, end_date_env = Unset,
      clock = 738894 * US_PER_DAY + 12 * US_PER_HOUR, api = api_down\<rparr>"

definition expired_token_inputs :: inputs where
  "expired_token_inputs =
     \<lparr>token_file_state = TokenData (JStr ''eyJ'') (ExpiresAt (738894 * US_PER_DAY)),
      api_token_env = None,
      start_date_env = Unset, end_date_env = Unset,
      clock = 738894 * US_PER_DAY + 12 * US_PER_HOUR, api = api_down\<rparr>"

text \<open>
  A run whose token file holds a token that expired at the start of the day while
  \<^verbatim>\<open>API_TOKEN\<close> is set, and a run whose token file cannot be read while \<^verbatim>\<open>API_TOKEN\<close> is set.
\<close>

definition expired_file_with_env_inputs :: inputs where
  "expired_file_with_env_inputs =
     \<lparr>token_file_state = TokenData (JStr ''eyJ'') (ExpiresAt (738894 * US_PER_DAY)),
      api_token_env = Some ''fresh'',
      start_date_env = Unset, end_date_env = Unset,
      clock = 738894 * US_PER_DAY + 12 * US_PER_HOUR, api = api_down\<rparr>"

definition unreadable_file_with_env_inputs :: inputs where
  "unreadable_file_with_env_inputs =
     \<lparr>token_file_state = Unreadable, api_token_env = Some ''fresh'',
      start_date_env = Unset, end_date_env = Unset,
      clock = 738894 * US_PER_DAY + 12 * US_PER_HOUR, api = api_down\<rparr>"





text \<open>
  The payload of the example: flow F1 in state started, with the metrics total-exchanges 10
  and successful-exchanges 7 and no other metric.
\<close>

definition example_entry :: "(string \<times> json) list" where
  "example_entry =
     [(''flowDetails'', JObj [(''flowId'', JStr ''F1''), (''flowState'', JStr ''started'')]),
      (''metrics'', JArr [JObj [(''metricId'', JStr ''total-exchanges''), (''value'', JNum 10)],
                         JObj [(''metricId'', JStr ''successful-exchanges''),
                               (''value'', JNum 7)]])]"

text \<open>How often the header occurs in a file, and its data rows in order.\<close>

definition header_count :: "'r csv_file \<Rightarrow> nat" where
  "header_count f = (case f of None \<Rightarrow> 0 | Some ls \<Rightarrow> count_list ls Header)"

fun rows_of :: "'r csv_line list \<Rightarrow> 'r list" where
  "rows_of [] = []"
| "rows_of (Header # ls) = rows_of ls"
| "rows_of (Row r # ls) = r # rows_of ls"

definition data_rows :: "'r csv_file \<Rightarrow> 'r list" where
  "data_rows f = (case f of None \<Rightarrow> [] | Some ls \<Rightarrow> rows_of ls)"

text \<open>
  A run for 2024-01-01 with a token in the environment against an API that answers every
  request with the list [None].
\<close>

definition api_nulls :: "json \<Rightarrow> request" where
  "api_nulls token from_date to_date = Some (JArr [JNull])"

definition nulls_inputs :: inputs where
  "nulls_inputs =
     \<lparr>token_file_state = NoTokenFile, api_token_env = Some ''secret'',
      start_date_env = Date (738885 * US_PER_DAY), end_date_env = Date (738885 * US_PER_DAY),
      clock = 738894 * US_PER_DAY + 12 * US_PER_HOUR, api = api_nulls\<rparr>"

text \<open>A daily file with the stamp of every row set to 0.\<close>

definition unstamped :: "daily_row csv_file \<Rightarrow> daily_row csv_file" where
  "unstamped f =
     map_option (map (map_csv_line (\<lambda>r. r\<lparr>daily_collection_timestamp := 0\<rparr>))) f"

text \<open>The hourly row of a flow on 2024-01-01 with the given name, total and response time.\<close>

definition hourly_row :: "string \<Rightarrow> int \<Rightarrow> rat \<Rightarrow> rat \<Rightarrow> flat_record" where
  "hourly_row name h exchanges response =
     \<lparr>datetime_col = 738885 * US_PER_DAY + h * US_PER_HOUR, date_col = 738885, hour_col = h,
      collection_timestamp = 738894 * US_PER_DAY,
      flow_id = JStr ''F1'', flow_name = JStr name, flow_state = JStr ''started'',
      total_exchanges = JNum exchanges, successful_exchanges = JNum exchanges,
      failed_exchanges = JNum 0, inflight_exchanges = JNum 0,
      avg_response_time_ms = JNum response, avg_processing_time_ms = JNum 0\<rparr>"

text \<open>
  The hourly file of the example: two rows of the same day and flow with the totals 10 and 20
  and the response times 100 and 200.
\<close>

definition two_hours_file :: "string \<Rightarrow> flat_record csv_file" where
  "two_hours_file name =
     Some [Header, Row (hourly_row name 5 10 100), Row (hourly_row name 6 20 200)]"




text \<open>
  For a window of the run: what \<^verbatim>\<open>fetch_data\<close> returns, whether \<^verbatim>\<open>main\<close> takes it as data,
  whether the request itself succeeded, and the records flattened from it.
\<close>

definition payload_of :: "request \<Rightarrow> window \<Rightarrow> json" where
  "payload_of request r = fetch_data request (from_utc r) (to_utc r)"

definition has_data :: "request \<Rightarrow> window \<Rightarrow> bool" where
  "has_data request r = truthy (payload_of request r)"




text \<open>The windows of a run and the API as the run sees it with its token.\<close>

definition run_ranges :: "inputs \<Rightarrow> window list" where
  "run_ranges inp =
     (case date_range (start_date_env inp) (end_date_env inp) (clock inp) of
        Inl e \<Rightarrow> []
      | Inr (start_date, end_date) \<Rightarrow>
          (case generate_hourly_ranges start_date end_date of
             Inl e \<Rightarrow> []
           | Inr hourly_ranges \<Rightarrow> hourly_ranges))"

definition run_request :: "inputs \<Rightarrow> request" where
  "run_request inp =
     api inp (fst (load_token (token_file_state inp) (api_token_env inp) (clock inp)))"


text \<open>
  Whether a run gets as far as its first request: it holds a token and its range of dates
  gives a list of windows.
\<close>

definition run_starts :: "inputs \<Rightarrow> bool" where
  "run_starts inp =
     (truthy (fst (load_token (token_file_state inp) (api_token_env inp) (clock inp)))
      \<and> (case date_range (start_date_env inp) (end_date_env inp) (clock inp) of
            Inl e \<Rightarrow> False
          | Inr (start_date, end_date) \<Rightarrow>
              (case generate_hourly_ranges start_date end_date of
                 Inl e \<Rightarrow> False
               | Inr hourly_ranges \<Rightarrow> True)))"

text \<open>A run for 2024-01-01 with a token in the environment against an API that is down.\<close>

definition down_inputs :: inputs where
  "down_inputs =
     \<lparr>token_file_state = NoTokenFile, api_token_env = Some ''secret'',
      start_date_env = Date (738885 * US_PER_DAY), end_date_env = Date (738885 * US_PER_DAY),
      clock = 738894 * US_PER_DAY + 12 * US_PER_HOUR, api = api_down\<rparr>"






section \<open>Properties of the fetch windows\<close>

declare hourly_loop.simps [simp del]

lemma hourly_step_in_range:
  assumes "US_PER_HOUR \<le> c" and "c + US_PER_HOUR \<le> DATETIME_MAX"
  shows "hourly_step c = Inr (nth_window c 0, c + US_PER_HOUR)"
  using assms
  by (simp add: hourly_step_def dt_add_def dt_sub_def timedelta_hours_def
      TIMEZONE_OFFSET_HOURS_def valid_datetime_def nth_window_def US_PER_HOUR_def)

lemma nth_window_shift: "nth_window (c + US_PER_HOUR) i = nth_window c (Suc i)"
  by (simp add: nth_window_def algebra_simps)

lemma hourly_loop_closed:
  "US_PER_HOUR \<le> c \<Longrightarrow> c + int n * US_PER_HOUR \<le> DATETIME_MAX \<Longrightarrow>
   e < c + int n * US_PER_HOUR \<Longrightarrow>
   (0 < n \<longrightarrow> c + int n * US_PER_HOUR - US_PER_HOUR \<le> e) \<Longrightarrow>
   hourly_loop c e acc = Inr (acc @ map (nth_window c) [0..<n])"
proof (induction n arbitrary: c acc)
  case 0
  then show ?case by (simp add: hourly_loop.simps)
next
  case (Suc n)
  have H: "0 < US_PER_HOUR" by (simp add: US_PER_HOUR_def)
  define k where "k = int n * US_PER_HOUR"
  have k0: "0 \<le> k" using H by (simp add: k_def)
  have Sk: "int (Suc n) * US_PER_HOUR = k + US_PER_HOUR" by (simp add: k_def algebra_simps)
  from Suc.prems(4) have ke: "c + k \<le> e" by (simp add: k_def algebra_simps)
  with k0 have ce: "c \<le> e" by linarith
  from Suc.prems(2) k0 have "c + US_PER_HOUR \<le> DATETIME_MAX" unfolding Sk by linarith
  with Suc.prems(1) have step: "hourly_step c = Inr (nth_window c 0, c + US_PER_HOUR)"
    by (rule hourly_step_in_range)
  have IH: "hourly_loop (c + US_PER_HOUR) e (acc @ [nth_window c 0]) =
      Inr ((acc @ [nth_window c 0]) @ map (nth_window (c + US_PER_HOUR)) [0..<n])"
  proof (rule Suc.IH)
    show "US_PER_HOUR \<le> c + US_PER_HOUR" using Suc.prems(1) H by linarith
    show "c + US_PER_HOUR + int n * US_PER_HOUR \<le> DATETIME_MAX"
      using Suc.prems(2) unfolding Sk k_def by linarith
    show "e < c + US_PER_HOUR + int n * US_PER_HOUR"
      using Suc.prems(3) unfolding Sk k_def by linarith
    show "0 < n \<longrightarrow> c + US_PER_HOUR + int n * US_PER_HOUR - US_PER_HOUR \<le> e"
      using ke unfolding k_def by simp
  qed
  have "map (nth_window c) [0..<Suc n] =
      nth_window c 0 # map (nth_window (c + US_PER_HOUR)) [0..<n]"
    by (simp add: nth_window_shift upt_conv_Cons map_Suc_upt [symmetric] del: upt_Suc)
  with IH step ce show ?case
    by (subst hourly_loop.simps) simp
qed

text \<open>
  The closed form of the result for a range of days on which no datetime operation of the
  loop leaves the range of the type.
\<close>

lemma generate_hourly_ranges_closed:
  assumes "1 \<le> date_of start_date" and "date_of start_date \<le> date_of end_date"
    and "date_of end_date \<le> 3652057"
  shows "generate_hourly_ranges start_date end_date =
    Inr (map (nth_window (date_of start_date * US_PER_DAY))
          [0..<24 * nat (date_of end_date - date_of start_date + 1)])"
proof -
  define s where "s = date_of start_date"
  define e where "e = date_of end_date"
  define n where "n = 24 * nat (e - s + 1)"
  have n: "int n * US_PER_HOUR = (e - s + 1) * US_PER_DAY"
    using assms(2) by (simp add: n_def s_def e_def US_PER_DAY_def)
  have c: "replace_time start_date 0 0 0 0 = s * US_PER_DAY"
    by (simp add: replace_time_def s_def)
  have l: "replace_time end_date 23 59 59 999999 = e * US_PER_DAY + US_PER_DAY - 1"
    by (simp add: replace_time_def e_def US_PER_DAY_def US_PER_HOUR_def)
  have "hourly_loop (s * US_PER_DAY) (e * US_PER_DAY + US_PER_DAY - 1) [] =
      Inr ([] @ map (nth_window (s * US_PER_DAY)) [0..<n])"
  proof (rule hourly_loop_closed)
    show "US_PER_HOUR \<le> s * US_PER_DAY"
      using assms(1) by (simp add: s_def US_PER_DAY_def US_PER_HOUR_def)
    show "s * US_PER_DAY + int n * US_PER_HOUR \<le> DATETIME_MAX"
      using assms(3) unfolding n by (simp add: e_def DATETIME_MAX_def US_PER_DAY_def
          US_PER_HOUR_def algebra_simps)
    show "e * US_PER_DAY + US_PER_DAY - 1 < s * US_PER_DAY + int n * US_PER_HOUR"
      unfolding n by (simp add: algebra_simps)
    show "0 < n \<longrightarrow>
        s * US_PER_DAY + int n * US_PER_HOUR - US_PER_HOUR \<le> e * US_PER_DAY + US_PER_DAY - 1"
      unfolding n by (simp add: algebra_simps US_PER_HOUR_def)
  qed
  then show ?thesis
    by (simp add: generate_hourly_ranges_def c l n_def s_def e_def)
qed

text \<open>
  C1. For every pair of days with start \<le> end on which no window leaves the range of the
  datetime type (the start day is not 0001-01-01 and the end day is not 9999-12-31),
  \<^verbatim>\<open>generate_hourly_ranges\<close> returns 24 windows per day of the range, both ends included,
  strictly increasing in local time; each window lasts one hour in UTC and starts
  \<open>TIMEZONE_OFFSET_HOURS\<close> before its local time; consecutive windows are one hour apart and
  each starts in UTC where the one before ends; the first is local midnight of the start day
  and the last is 23:00 of the end day.
\<close>

theorem generate_hourly_ranges_windows:
  assumes "1 \<le> date_of start_date" and "date_of start_date \<le> date_of end_date"
    and "date_of end_date \<le> 3652057"
  shows "\<exists>ranges. generate_hourly_ranges start_date end_date = Inr ranges
    \<and> length ranges = 24 * nat (date_of end_date - date_of start_date + 1)
    \<and> sorted_wrt (<) (map local_datetime ranges)
    \<and> (\<forall>w \<in> set ranges.
          to_utc w = from_utc w + timedelta_hours 1
        \<and> from_utc w = local_datetime w - timedelta_hours TIMEZONE_OFFSET_HOURS)
    \<and> (\<forall>i. Suc i < length ranges \<longrightarrow>
          local_datetime (ranges ! Suc i) = local_datetime (ranges ! i) + timedelta_hours 1
        \<and> from_utc (ranges ! Suc i) = to_utc (ranges ! i))
    \<and> local_datetime (hd ranges) = replace_time start_date 0 0 0 0
    \<and> local_datetime (last ranges) = replace_time end_date 23 0 0 0"
proof -
  define c where "c = date_of start_date * US_PER_DAY"
  define n where "n = 24 * nat (date_of end_date - date_of start_date + 1)"
  define ranges where "ranges = map (nth_window c) [0..<n]"
  have n0: "0 < n" using assms(2) by (simp add: n_def)
  have H: "0 < US_PER_HOUR" by (simp add: US_PER_HOUR_def)
  have gen: "generate_hourly_ranges start_date end_date = Inr ranges"
    using generate_hourly_ranges_closed [OF assms] by (simp add: ranges_def c_def n_def)
  have len: "length ranges = n" by (simp add: ranges_def)
  have nth: "ranges ! i = nth_window c i" if "i < n" for i
    using that by (simp add: ranges_def)
  have ne: "ranges \<noteq> []" using n0 len by auto
  have "sorted_wrt (<) (map local_datetime ranges)"
    unfolding sorted_wrt_iff_nth_less
  proof (intro allI impI)
    fix i j assume "i < j" "j < length (map local_datetime ranges)"
    then have "i < n" "j < n" by (simp_all add: len)
    moreover have "int i * US_PER_HOUR < int j * US_PER_HOUR" using \<open>i < j\<close> H by simp
    ultimately show "map local_datetime ranges ! i < map local_datetime ranges ! j"
      by (simp add: len nth nth_window_def)
  qed
  moreover have "\<forall>w \<in> set ranges.
          to_utc w = from_utc w + timedelta_hours 1
        \<and> from_utc w = local_datetime w - timedelta_hours TIMEZONE_OFFSET_HOURS"
    by (auto simp: ranges_def nth_window_def timedelta_hours_def TIMEZONE_OFFSET_HOURS_def)
  moreover have "\<forall>i. Suc i < length ranges \<longrightarrow>
          local_datetime (ranges ! Suc i) = local_datetime (ranges ! i) + timedelta_hours 1
        \<and> from_utc (ranges ! Suc i) = to_utc (ranges ! i)"
    by (simp add: len nth nth_window_def timedelta_hours_def algebra_simps)
  moreover have "local_datetime (hd ranges) = replace_time start_date 0 0 0 0"
  proof -
    have "hd ranges = nth_window c 0"
      using ne n0 by (simp add: hd_conv_nth nth)
    then show ?thesis
      by (simp add: nth_window_def replace_time_def c_def)
  qed
  moreover have "local_datetime (last ranges) = replace_time end_date 23 0 0 0"
  proof -
    have "last ranges = nth_window c (n - 1)"
      using ne n0 by (simp add: last_conv_nth len nth)
    moreover have "int (n - 1) * US_PER_HOUR = int n * US_PER_HOUR - US_PER_HOUR"
      using n0 by (simp add: of_nat_diff algebra_simps)
    moreover have "int n * US_PER_HOUR =
        (date_of end_date - date_of start_date + 1) * US_PER_DAY"
      using assms(2) by (simp add: n_def US_PER_DAY_def)
    ultimately show ?thesis
      by (simp add: nth_window_def replace_time_def c_def US_PER_DAY_def US_PER_HOUR_def
          algebra_simps)
  qed
  ultimately show ?thesis using gen len by (auto simp: n_def)
qed

text \<open>
  The windows of 2024-01-01 and 2024-01-02 (days 738885 and 738886), asked for at noon of
  the first day: 48 windows, the first at local midnight 2024-01-01 and starting at
  2023-12-31T23:00 in UTC, the last at 23:00 of 2024-01-02.
\<close>

theorem generate_hourly_ranges_windows_witness:
  "1 \<le> date_of (738885 * US_PER_DAY + 12 * US_PER_HOUR)
   \<and> date_of (738885 * US_PER_DAY + 12 * US_PER_HOUR) \<le> date_of (738886 * US_PER_DAY)
   \<and> date_of (738886 * US_PER_DAY) \<le> 3652057
   \<and> (\<exists>ranges.
        generate_hourly_ranges
          (738885 * US_PER_DAY + 12 * US_PER_HOUR) (738886 * US_PER_DAY) = Inr ranges
      \<and> length ranges = 48
      \<and> local_datetime (hd ranges) = 738885 * US_PER_DAY
      \<and> from_utc (hd ranges) = 738885 * US_PER_DAY - US_PER_HOUR
      \<and> to_utc (hd ranges) = 738885 * US_PER_DAY
      \<and> from_utc (ranges ! 1) = to_utc (ranges ! 0)
      \<and> local_datetime (last ranges) = 738886 * US_PER_DAY + 23 * US_PER_HOUR)"
proof -
  let ?s = "738885 * US_PER_DAY + 12 * US_PER_HOUR" and ?e = "738886 * US_PER_DAY"
  have ds: "date_of ?s = 738885" and de: "date_of ?e = 738886"
    by (simp_all add: date_of_def US_PER_DAY_def US_PER_HOUR_def)
  have h1: "1 \<le> date_of ?s" and h2: "date_of ?s \<le> date_of ?e"
    and h3: "date_of ?e \<le> 3652057"
    by (simp_all add: ds de)
  from generate_hourly_ranges_windows [OF h1 h2 h3]
  obtain ranges where r: "generate_hourly_ranges ?s ?e = Inr ranges"
    and len: "length ranges = 24 * nat (date_of ?e - date_of ?s + 1)"
    and each: "\<forall>w \<in> set ranges.
          to_utc w = from_utc w + timedelta_hours 1
        \<and> from_utc w = local_datetime w - timedelta_hours TIMEZONE_OFFSET_HOURS"
    and adj: "\<forall>i. Suc i < length ranges \<longrightarrow>
          local_datetime (ranges ! Suc i) = local_datetime (ranges ! i) + timedelta_hours 1
        \<and> from_utc (ranges ! Suc i) = to_utc (ranges ! i)"
    and first: "local_datetime (hd ranges) = replace_time ?s 0 0 0 0"
    and final: "local_datetime (last ranges) = replace_time ?e 23 0 0 0"
    by blast
  have len48: "length ranges = 48" using len by (simp add: ds de)
  then have "ranges \<noteq> []" by auto
  then have "hd ranges \<in> set ranges" by simp
  with each have hd: "to_utc (hd ranges) = from_utc (hd ranges) + timedelta_hours 1"
    "from_utc (hd ranges) = local_datetime (hd ranges) - timedelta_hours TIMEZONE_OFFSET_HOURS"
    by blast+
  have l0: "local_datetime (hd ranges) = 738885 * US_PER_DAY"
    using first by (simp add: replace_time_def ds)
  have "from_utc (ranges ! 1) = to_utc (ranges ! 0)"
    using adj len48 by simp
  moreover have "local_datetime (last ranges) = 738886 * US_PER_DAY + 23 * US_PER_HOUR"
    using final by (simp add: replace_time_def de US_PER_HOUR_def)
  ultimately show ?thesis
    using h1 h2 h3 r len48 l0 hd
    by (simp add: timedelta_hours_def TIMEZONE_OFFSET_HOURS_def)
qed

text \<open>
  The claim as written, for every pair of days, fails at both ends of the calendar. On
  0001-01-01 the UTC start of the first window is before the smallest datetime, on
  9999-12-31 the end of the last window is after the largest one: the datetime arithmetic
  of the loop raises \<^verbatim>\<open>OverflowError\<close> and no list is returned.
\<close>

theorem generate_hourly_ranges_overflow:
  "generate_hourly_ranges 0 0 = Inl OverflowError
   \<and> generate_hourly_ranges (3652058 * US_PER_DAY) (3652058 * US_PER_DAY) = Inl OverflowError"
  by code_simp

section \<open>Properties of the run before the first request\<close>

lemma generate_hourly_ranges_reversed_empty:
  "date_of end_date < date_of start_date \<Longrightarrow>
   generate_hourly_ranges start_date end_date = Inr []"
  by (simp add: generate_hourly_ranges_def replace_time_def hourly_loop.simps
      US_PER_DAY_def US_PER_HOUR_def)

lemma main_no_token:
  assumes "load_token (token_file_state inp) (api_token_env inp) (clock inp) = (tok, msgs)"
    and "\<not> truthy tok"
  shows "main inp w = (Exit 1, w\<lparr>printed := printed w @ msgs @ [NoTokenFound]\<rparr>)"
  using assms by (simp add: main_def Let_def)

lemma main_with_token_not_exit:
  assumes "load_token (token_file_state inp) (api_token_env inp) (clock inp) = (tok, msgs)"
    and "truthy tok"
  shows "fst (main inp w) \<noteq> Exit n"
  using assms
  by (simp add: main_def Let_def split: sum.splits prod.splits option.splits)

lemma load_token_no_file:
  "env = None \<or> env = Some [] \<Longrightarrow> load_token NoTokenFile env now = (JNull, [])"
  by (auto simp: load_token_def env_token_def)

lemma load_token_expired:
  "truthy token \<Longrightarrow> expires_at \<le> now \<Longrightarrow>
   load_token (TokenData token (ExpiresAt expires_at)) env now =
     (JNull, [TokenExpired expires_at])"
  by (simp add: load_token_def)

lemma load_token_unreadable:
  "t \<noteq> [] \<Longrightarrow>
   load_token Unreadable (Some t) now = (JStr t, [ErrorLoadingToken, TokenLoadedFromEnv])"
  by (simp add: load_token_def env_token_def)

text \<open>
  C7. When the end day is before the start day, \<^verbatim>\<open>generate_hourly_ranges\<close> returns the empty
  list and raises nothing; a run that holds a token and is given such a range in
  \<^verbatim>\<open>START_DATE\<close> and \<^verbatim>\<open>END_DATE\<close> sends no request, leaves the hourly file as it was and ends
  with the summary of 0 successful hours out of 0.
\<close>

theorem reversed_range_yields_no_windows:
  assumes "date_of end_date < date_of start_date"
  shows "generate_hourly_ranges start_date end_date = Inr []
    \<and> (start_date_env inp = Date start_date \<and> end_date_env inp = Date end_date
        \<and> truthy (fst (load_token (token_file_state inp) (api_token_env inp) (clock inp)))
      \<longrightarrow> fst (main inp w) =
            Summary \<lparr>summary_successful_hours = 0, summary_total_hours = 0,
                     summary_total_records = 0\<rparr>
        \<and> api_calls (snd (main inp w)) = api_calls w
        \<and> hourly_csv (snd (main inp w)) = hourly_csv w)"
proof -
  obtain tok msgs where
    lt: "load_token (token_file_state inp) (api_token_env inp) (clock inp) = (tok, msgs)"
    by (cases "load_token (token_file_state inp) (api_token_env inp) (clock inp)")
  have empty: "generate_hourly_ranges start_date end_date = Inr []"
    using assms by (rule generate_hourly_ranges_reversed_empty)
  with lt show ?thesis
    by (simp add: main_def Let_def split: prod.splits)
qed

theorem reversed_range_yields_no_windows_witness:
  "date_of (738885 * US_PER_DAY) < date_of (738886 * US_PER_DAY)
   \<and> generate_hourly_ranges (738886 * US_PER_DAY) (738885 * US_PER_DAY) = Inr []
   \<and> fst (main reversed_inputs fresh_world) =
       Summary \<lparr>summary_successful_hours = 0, summary_total_hours = 0,
                summary_total_records = 0\<rparr>
   \<and> api_calls (snd (main reversed_inputs fresh_world)) = []"
proof -
  have lt: "date_of (738885 * US_PER_DAY) < date_of (738886 * US_PER_DAY)"
    by (simp add: date_of_def US_PER_DAY_def US_PER_HOUR_def)
  have tok: "truthy (fst (load_token (token_file_state reversed_inputs)
      (api_token_env reversed_inputs) (clock reversed_inputs)))"
    by (simp add: reversed_inputs_def load_token_def env_token_def)
  from reversed_range_yields_no_windows [OF lt, of reversed_inputs fresh_world] tok lt
  show ?thesis
    by (simp add: reversed_inputs_def fresh_world_def)
qed

text \<open>
  The claim as written fails: for the range from 2024-01-02 back to 2024-01-01 nothing is
  raised, neither by \<^verbatim>\<open>generate_hourly_ranges\<close> nor by the run, which ends with its summary.
\<close>

theorem reversed_range_not_an_error:
  "generate_hourly_ranges (738886 * US_PER_DAY) (738885 * US_PER_DAY) = Inr []
   \<and> fst (main reversed_inputs fresh_world) =
       Summary \<lparr>summary_successful_hours = 0, summary_total_hours = 0,
                summary_total_records = 0\<rparr>"
  by code_simp
text \<open>
  C8. A run without token file and without \<^verbatim>\<open>API_TOKEN\<close>, and a run whose token file holds
  a token with \<^verbatim>\<open>expires_at\<close> not after the clock, both end at once with \<^verbatim>\<open>sys.exit(1)\<close> after
  the same message that no token was found: no request is sent and no file is touched. The
  expired token is told apart only by the warning that \<^verbatim>\<open>load_token\<close> prints before.
\<close>

theorem main_aborts_without_valid_token:
  "(token_file_state inp = NoTokenFile
      \<and> (api_token_env inp = None \<or> api_token_env inp = Some [])
    \<longrightarrow> main inp w = (Exit 1, w\<lparr>printed := printed w @ [NoTokenFound]\<rparr>))
   \<and> (token_file_state inp = TokenData token (ExpiresAt expires_at)
      \<and> truthy token \<and> expires_at \<le> clock inp
    \<longrightarrow> main inp w =
          (Exit 1, w\<lparr>printed := printed w @ [TokenExpired expires_at, NoTokenFound]\<rparr>))"
proof (intro conjI impI)
  assume a: "token_file_state inp = NoTokenFile
      \<and> (api_token_env inp = None \<or> api_token_env inp = Some [])"
  then have "load_token (token_file_state inp) (api_token_env inp) (clock inp) = (JNull, [])"
    using load_token_no_file [of "api_token_env inp" "clock inp"] by simp
  then show "main inp w = (Exit 1, w\<lparr>printed := printed w @ [NoTokenFound]\<rparr>)"
    using main_no_token [of inp JNull "[]" w] by simp
next
  assume a: "token_file_state inp = TokenData token (ExpiresAt expires_at)
      \<and> truthy token \<and> expires_at \<le> clock inp"
  then have "load_token (token_file_state inp) (api_token_env inp) (clock inp) =
      (JNull, [TokenExpired expires_at])"
    using load_token_expired [of token expires_at "clock inp" "api_token_env inp"] by simp
  then show "main inp w =
      (Exit 1, w\<lparr>printed := printed w @ [TokenExpired expires_at, NoTokenFound]\<rparr>)"
    using main_no_token [of inp JNull "[TokenExpired expires_at]" w] by simp
qed

theorem main_aborts_without_valid_token_witness:
  "main missing_token_inputs fresh_world =
     (Exit 1, fresh_world\<lparr>printed := [NoTokenFound]\<rparr>)
   \<and> main expired_token_inputs fresh_world =
     (Exit 1, fresh_world\<lparr>printed := [TokenExpired (738894 * US_PER_DAY), NoTokenFound]\<rparr>)
   \<and> api_calls (snd (main missing_token_inputs fresh_world)) = []
   \<and> api_calls (snd (main expired_token_inputs fresh_world)) = []"
proof -
  have m: "main missing_token_inputs fresh_world =
     (Exit 1, fresh_world\<lparr>printed := printed fresh_world @ [NoTokenFound]\<rparr>)"
    using main_aborts_without_valid_token [where inp = missing_token_inputs and w = fresh_world]
    by (simp add: missing_token_inputs_def)
  have e: "main expired_token_inputs fresh_world =
     (Exit 1, fresh_world\<lparr>printed := printed fresh_world @
        [TokenExpired (738894 * US_PER_DAY), NoTokenFound]\<rparr>)"
    using main_aborts_without_valid_token [where inp = expired_token_inputs
        and token = "JStr ''eyJ''" and expires_at = "738894 * US_PER_DAY" and w = fresh_world]
    by (simp add: expired_token_inputs_def US_PER_DAY_def US_PER_HOUR_def)
  from m e show ?thesis by (simp add: fresh_world_def)
qed

text \<open>
  The claim as written fails in that the two errors are not distinct: the run without a
  token and the run with an expired token end in the same way, with exit status 1 after the
  message that no token was found.
\<close>

theorem token_errors_not_distinct:
  "fst (main missing_token_inputs fresh_world) = Exit 1
   \<and> fst (main expired_token_inputs fresh_world) = Exit 1
   \<and> last (printed (snd (main missing_token_inputs fresh_world))) = NoTokenFound
   \<and> last (printed (snd (main expired_token_inputs fresh_world))) = NoTokenFound"
  by code_simp

text \<open>
  C10. With \<^verbatim>\<open>API_TOKEN\<close> set to a non-empty text: when the token file cannot be read,
  \<^verbatim>\<open>load_token\<close> returns the token of the environment and the run does not end with
  \<^verbatim>\<open>sys.exit\<close>; when the token file holds a token whose \<^verbatim>\<open>expires_at\<close> is not after the
  clock, \<^verbatim>\<open>load_token\<close> returns None without looking at the environment, and the run ends
  with \<^verbatim>\<open>sys.exit(1)\<close>.
\<close>

theorem load_token_env_fallback:
  assumes "api_token_env inp = Some t" and "t \<noteq> []"
  shows "(token_file_state inp = Unreadable
      \<longrightarrow> fst (load_token (token_file_state inp) (api_token_env inp) (clock inp)) = JStr t
        \<and> fst (main inp w) \<noteq> Exit 1)
    \<and> (token_file_state inp = TokenData token (ExpiresAt expires_at)
        \<and> truthy token \<and> expires_at \<le> clock inp
      \<longrightarrow> fst (load_token (token_file_state inp) (api_token_env inp) (clock inp)) = JNull
        \<and> fst (main inp w) = Exit 1)"
proof (intro conjI impI)
  assume u: "token_file_state inp = Unreadable"
  with assms have lt: "load_token (token_file_state inp) (api_token_env inp) (clock inp) =
      (JStr t, [ErrorLoadingToken, TokenLoadedFromEnv])"
    by (simp add: load_token_unreadable)
  then show "fst (load_token (token_file_state inp) (api_token_env inp) (clock inp)) = JStr t"
    by simp
  from lt assms(2) show "fst (main inp w) \<noteq> Exit 1"
    by (intro main_with_token_not_exit [of inp "JStr t"]) simp_all
next
  assume e: "token_file_state inp = TokenData token (ExpiresAt expires_at)
        \<and> truthy token \<and> expires_at \<le> clock inp"
  then have lt: "load_token (token_file_state inp) (api_token_env inp) (clock inp) =
      (JNull, [TokenExpired expires_at])"
    using load_token_expired [of token expires_at "clock inp" "api_token_env inp"] by simp
  then show "fst (load_token (token_file_state inp) (api_token_env inp) (clock inp)) = JNull"
    by simp
  from lt show "fst (main inp w) = Exit 1"
    using main_no_token [of inp JNull "[TokenExpired expires_at]" w] by simp
qed

theorem load_token_env_fallback_witness:
  "fst (load_token Unreadable (Some ''fresh'') (738894 * US_PER_DAY + 12 * US_PER_HOUR)) =
     JStr ''fresh''
   \<and> fst (main unreadable_file_with_env_inputs fresh_world) \<noteq> Exit 1
   \<and> fst (load_token (TokenData (JStr ''eyJ'') (ExpiresAt (738894 * US_PER_DAY)))
       (Some ''fresh'') (738894 * US_PER_DAY + 12 * US_PER_HOUR)) = JNull
   \<and> fst (main expired_file_with_env_inputs fresh_world) = Exit 1"
proof -
  have u: "api_token_env unreadable_file_with_env_inputs = Some ''fresh''"
    and x: "api_token_env expired_file_with_env_inputs = Some ''fresh''"
    by (simp_all add: unreadable_file_with_env_inputs_def expired_file_with_env_inputs_def)
  have ne: "''fresh'' \<noteq> []" by simp
  from load_token_env_fallback [OF u ne, where token = "JStr ''eyJ''"
      and expires_at = "738894 * US_PER_DAY" and w = fresh_world]
  have 1: "fst (load_token Unreadable (Some ''fresh'')
        (738894 * US_PER_DAY + 12 * US_PER_HOUR)) = JStr ''fresh''
      \<and> fst (main unreadable_file_with_env_inputs fresh_world) \<noteq> Exit 1"
    by (simp add: unreadable_file_with_env_inputs_def)
  from load_token_env_fallback [OF x ne, where token = "JStr ''eyJ''"
      and expires_at = "738894 * US_PER_DAY" and w = fresh_world]
  have 2: "fst (load_token (TokenData (JStr ''eyJ'') (ExpiresAt (738894 * US_PER_DAY)))
       (Some ''fresh'') (738894 * US_PER_DAY + 12 * US_PER_HOUR)) = JNull
     \<and> fst (main expired_file_with_env_inputs fresh_world) = Exit 1"
    by (simp add: expired_file_with_env_inputs_def US_PER_DAY_def US_PER_HOUR_def)
  from 1 2 show ?thesis by simp
qed

text \<open>
  The claim as written fails for the expired token: with \<^verbatim>\<open>API_TOKEN\<close> set, \<^verbatim>\<open>load_token\<close>
  still returns None and the run ends with \<^verbatim>\<open>sys.exit(1)\<close>.
\<close>

theorem expired_token_blocks_env_fallback:
  "load_token (TokenData (JStr ''eyJ'') (ExpiresAt (738894 * US_PER_DAY))) (Some ''fresh'')
     (738894 * US_PER_DAY + 12 * US_PER_HOUR) = (JNull, [TokenExpired (738894 * US_PER_DAY)])
   \<and> fst (main expired_file_with_env_inputs fresh_world) = Exit 1"
  by code_simp

section \<open>Properties of the flattening\<close>





section \<open>Properties of the hourly file\<close>

lemma rows_of_append [simp]: "rows_of (xs @ ys) = rows_of xs @ rows_of ys"
  by (induction xs rule: rows_of.induct) simp_all

lemma rows_of_map_Row [simp]: "rows_of (map Row rs) = rs"
  by (induction rs) simp_all

lemma count_list_map_Row [simp]: "count_list (map Row rs) Header = 0"
  by (induction rs) simp_all


lemma header_count_append_records:
  "header_count (append_records f rs) =
     (if f = None \<and> rs \<noteq> [] then 1 else header_count f)"
  by (cases f) (simp_all add: append_records_def open_append_def header_count_def Let_def)

text \<open>
  Two batches that both hold records, appended to a path where no file exists, are read back
  in order behind a single header.
\<close>

lemma append_records_twice:
  "rs1 \<noteq> [] \<Longrightarrow>
   append_records (append_records None rs1) rs2 = Some (Header # map Row rs1 @ map Row rs2)"
  by (simp add: append_records_def open_append_def Let_def)

text \<open>
  C3. On a path where no file exists, a first call of \<^verbatim>\<open>save_to_csv_hourly\<close> with the payload
  [None] flattens no record but creates the file, empty; a second call with the entry of the
  example appends its row and writes no header, because the file exists by then. The file
  read back holds the row and not a single header line.
\<close>

theorem header_missing_after_batch_without_records:
  "save_to_csv_hourly now (JArr [JNull]) None t1 = Inr ([], Some [])
   \<and> (\<exists>r. save_to_csv_hourly now (JObj example_entry) (Some []) t2 = Inr ([r], Some [Row r])
        \<and> header_count (Some [Row r]) = 0
        \<and> data_rows (Some [Row r]) = [r])"
  by (simp add: save_to_csv_hourly_def append_records_def open_append_def header_count_def
      data_rows_def flatten_entry_def example_entry_def dict_get_def)

section \<open>Properties of the daily aggregation\<close>

lemma read_rows_no_data:
  "ls \<noteq> [] \<Longrightarrow> rows_of ls = [] \<Longrightarrow> read_rows ls = None"
  by (cases ls rule: rows_of.cases) simp_all

lemma aggregate_to_daily_no_rows:
  assumes "data_rows hourly = []"
  shows "snd (aggregate_to_daily now hourly daily) = daily
    \<and> fst (aggregate_to_daily now hourly daily) \<noteq> DailySaved n"
proof (cases hourly)
  case None
  then show ?thesis by (simp add: aggregate_to_daily_def)
next
  case (Some ls)
  show ?thesis
  proof (cases ls)
    case Nil
    with Some show ?thesis by (simp add: aggregate_to_daily_def)
  next
    case (Cons c rest)
    show ?thesis
    proof (cases "rest = []")
      case True
      with Some Cons show ?thesis by (simp add: aggregate_to_daily_def)
    next
      case False
      from assms Some Cons have "rows_of rest = []"
        by (cases c) (simp_all add: data_rows_def)
      with False have "read_rows rest = None" by (rule read_rows_no_data)
      with Some Cons False show ?thesis by (simp add: aggregate_to_daily_def)
    qed
  qed
qed

lemma fetch_loop_no_data:
  "list_all (\<lambda>r. \<not> has_data request r) ranges \<Longrightarrow>
   \<exists>w'. fetch_loop now request ranges w c = (None, w', c)
     \<and> hourly_csv w' = hourly_csv w \<and> daily_csv w' = daily_csv w"
proof (induction ranges arbitrary: w)
  case Nil
  then show ?case by simp
next
  case (Cons r ranges)
  let ?w1 = "w\<lparr>api_calls := api_calls w @ [(from_utc r, to_utc r)]\<rparr>"
  from Cons.prems have nd: "\<not> truthy (fetch_data request (from_utc r) (to_utc r))"
    and rest: "list_all (\<lambda>r. \<not> has_data request r) ranges"
    by (simp_all add: has_data_def payload_of_def)
  from Cons.IH [OF rest, of "?w1\<lparr>printed := printed ?w1 @ [NoDataRetrieved]\<rparr>"]
  show ?case using nd by (simp add: Let_def)
qed

lemma main_without_data:
  assumes "run_starts inp"
    and "list_all (\<lambda>r. \<not> has_data (run_request inp) r) (run_ranges inp)"
    and "data_rows (hourly_csv w) = []"
  shows "fst (main inp w) =
      Summary \<lparr>summary_successful_hours = 0, summary_total_hours = length (run_ranges inp),
               summary_total_records = 0\<rparr>
    \<and> hourly_csv (snd (main inp w)) = hourly_csv w
    \<and> daily_csv (snd (main inp w)) = daily_csv w"
proof -
  obtain tok msgs where
    lt: "load_token (token_file_state inp) (api_token_env inp) (clock inp) = (tok, msgs)"
    by (cases "load_token (token_file_state inp) (api_token_env inp) (clock inp)")
  from assms(1) lt have tok: "truthy tok" by (simp add: run_starts_def)
  from assms(1) obtain start_date end_date where
    dr: "date_range (start_date_env inp) (end_date_env inp) (clock inp) =
        Inr (start_date, end_date)"
    by (auto simp: run_starts_def split: sum.splits)
  from assms(1) dr obtain hourly_ranges where
    gen: "generate_hourly_ranges start_date end_date = Inr hourly_ranges"
    by (auto simp: run_starts_def split: sum.splits)
  have rr: "run_ranges inp = hourly_ranges" using dr gen by (simp add: run_ranges_def)
  have rq: "run_request inp = api inp tok" using lt by (simp add: run_request_def)
  let ?w1 = "w\<lparr>printed := printed w @ msgs\<rparr>"
  let ?c0 = "\<lparr>total_records = 0, successful_hours = 0, all_hourly_records = []\<rparr>"
  from fetch_loop_no_data [of "api inp tok" hourly_ranges "clock inp" ?w1 ?c0] assms(2)
  obtain w2 where
    loop: "fetch_loop (clock inp) (api inp tok) hourly_ranges ?w1 ?c0 = (None, w2, ?c0)"
    and h: "hourly_csv w2 = hourly_csv w" and d: "daily_csv w2 = daily_csv w"
    by (auto simp: rr rq)
  obtain outcome daily' where
    agg: "aggregate_to_daily (clock inp) (hourly_csv w2) (daily_csv w2) = (outcome, daily')"
    by (cases "aggregate_to_daily (clock inp) (hourly_csv w2) (daily_csv w2)")
  from aggregate_to_daily_no_rows [of "hourly_csv w2" "clock inp" "daily_csv w2"] assms(3) h agg
  have "daily' = daily_csv w2" by simp
  with lt tok dr gen loop agg h d rr show ?thesis
    by (simp add: main_def Let_def)
qed

text \<open>
  C9. For an hourly file that holds the header and no data row, \<^verbatim>\<open>aggregate_to_daily\<close> prints
  the warning that there is no data to aggregate. For every hourly file without data rows,
  and for a missing one, it returns normally, saves nothing and leaves the daily file as it
  was. A run that gets as far as its requests and retrieves data for no window, on an hourly
  file without data rows, ends with its summary and leaves the daily file as it was.
\<close>

theorem aggregate_to_daily_without_rows:
  "aggregate_to_daily now (Some [Header]) daily = (WarnNoData, daily)
   \<and> (data_rows hourly = []
     \<longrightarrow> snd (aggregate_to_daily now hourly daily) = daily
       \<and> (\<forall>n. fst (aggregate_to_daily now hourly daily) \<noteq> DailySaved n))
   \<and> (run_starts inp
       \<and> list_all (\<lambda>r. \<not> has_data (run_request inp) r) (run_ranges inp)
       \<and> data_rows (hourly_csv w) = []
     \<longrightarrow> fst (main inp w) =
           Summary \<lparr>summary_successful_hours = 0,
                    summary_total_hours = length (run_ranges inp),
                    summary_total_records = 0\<rparr>
       \<and> daily_csv (snd (main inp w)) = daily_csv w)"
  using aggregate_to_daily_no_rows [of hourly now daily] main_without_data [of inp w]
  by (simp add: aggregate_to_daily_def)

text \<open>
  The header alone gives the warning; a missing hourly file leaves the daily file as it was;
  and the run of 24 windows against the API that is down, on an hourly file that holds the
  header alone, ends with its summary after that warning.
\<close>

theorem aggregate_to_daily_without_rows_witness:
  "data_rows (None :: flat_record csv_file) = []
   \<and> aggregate_to_daily 0 (Some [Header]) (Some [Header]) = (WarnNoData, Some [Header])
   \<and> snd (aggregate_to_daily 0 None (Some [Header])) = Some [Header]
   \<and> fst (aggregate_to_daily 0 None (Some [Header])) \<noteq> DailySaved 0
   \<and> run_starts down_inputs
   \<and> fst (main down_inputs (fresh_world\<lparr>hourly_csv := Some [Header]\<rparr>)) =
       Summary \<lparr>summary_successful_hours = 0, summary_total_hours = 24,
                summary_total_records = 0\<rparr>
   \<and> daily_csv (snd (main down_inputs (fresh_world\<lparr>hourly_csv := Some [Header]\<rparr>))) = None
   \<and> last (printed (snd (main down_inputs (fresh_world\<lparr>hourly_csv := Some [Header]\<rparr>)))) =
       Aggregation WarnNoData"
proof -
  have h: "data_rows (None :: flat_record csv_file) = []"
    by (simp add: data_rows_def)
  have s: "run_starts down_inputs" by code_simp
  have n: "list_all (\<lambda>r. \<not> has_data (run_request down_inputs) r) (run_ranges down_inputs)"
    by code_simp
  have r: "data_rows (hourly_csv (fresh_world\<lparr>hourly_csv := Some [Header]\<rparr>)) = []"
    by (simp add: data_rows_def)
  have l: "length (run_ranges down_inputs) = 24" by code_simp
  have p: "last (printed (snd (main down_inputs (fresh_world\<lparr>hourly_csv := Some [Header]\<rparr>)))) =
       Aggregation WarnNoData"
    by code_simp
  from aggregate_to_daily_without_rows [where now = 0 and hourly = None
      and daily = "Some [Header]" and inp = down_inputs
      and w = "fresh_world\<lparr>hourly_csv := Some [Header]\<rparr>"] h s n r l p
  show ?thesis by (simp add: fresh_world_def)
qed

text \<open>
  The claim as written fails for the hourly file without any line, which has no data row
  either: reading it raises and the \<^verbatim>\<open>except\<close> branch prints the error message, not a
  warning. The run against the API that answers [None] leaves such a file behind and ends
  with that message.
\<close>

theorem empty_hourly_file_reported_as_error:
  "aggregate_to_daily 0 (Some []) None = (ErrorAggregating EmptyDataError, None)
   \<and> hourly_csv (snd (main nulls_inputs fresh_world)) = Some []
   \<and> last (printed (snd (main nulls_inputs fresh_world))) =
       Aggregation (ErrorAggregating EmptyDataError)"
  by code_simp
lemma agg_group_unstamped:
  "(agg_group now df k)\<lparr>daily_collection_timestamp := 0\<rparr> =
   (agg_group now' df k)\<lparr>daily_collection_timestamp := 0\<rparr>"
  by (cases k) (simp add: agg_group_def Let_def)

lemma daily_agg_unstamped:
  "map (\<lambda>r. r\<lparr>daily_collection_timestamp := 0\<rparr>) (daily_agg now df) =
   map (\<lambda>r. r\<lparr>daily_collection_timestamp := 0\<rparr>) (daily_agg now' df)"
  by (simp add: daily_agg_def agg_group_unstamped)

lemma unstamped_saved:
  "unstamped (Some (Header # map Row (daily_agg now df))) =
   unstamped (Some (Header # map Row (daily_agg now' df)))"
proof -
  have "map (map_csv_line f) (map Row xs) = map Row (map f xs)"
    for f :: "daily_row \<Rightarrow> daily_row" and xs
    by simp
  then show ?thesis
    using daily_agg_unstamped [of now df now'] by (simp add: unstamped_def del: map_map)
qed

lemma length_daily_agg [simp]: "length (daily_agg now df) = length (group_keys df)"
  by (simp add: daily_agg_def)

text \<open>
  C6. Whether \<^verbatim>\<open>aggregate_to_daily\<close> saves a daily file does not depend on the daily file
  that is there. When it saves one, what it writes is determined by the hourly file and the
  reading of the clock: it does not depend on the daily file that was there, and two passes
  at different times write files that differ at most in the column
  \<^verbatim>\<open>collection_timestamp\<close>.
\<close>

theorem daily_output_determined_by_hourly_and_clock:
  "fst (aggregate_to_daily now hourly daily) = fst (aggregate_to_daily now hourly daily')
   \<and> (fst (aggregate_to_daily now hourly daily) = DailySaved n
     \<longrightarrow> snd (aggregate_to_daily now hourly daily) = snd (aggregate_to_daily now hourly daily')
       \<and> fst (aggregate_to_daily now' hourly daily) = DailySaved n
       \<and> unstamped (snd (aggregate_to_daily now hourly daily)) =
           unstamped (snd (aggregate_to_daily now' hourly daily)))"
  using unstamped_saved [of now _ now']
  by (auto simp: aggregate_to_daily_def split: option.splits list.splits if_splits)

theorem daily_output_determined_by_hourly_and_clock_witness:
  "fst (aggregate_to_daily 0 (two_hours_file ''Flow one'') None) = DailySaved 1
   \<and> snd (aggregate_to_daily 0 (two_hours_file ''Flow one'') None) =
       snd (aggregate_to_daily 0 (two_hours_file ''Flow one'') (Some []))
   \<and> unstamped (snd (aggregate_to_daily 0 (two_hours_file ''Flow one'') None)) =
       unstamped (snd (aggregate_to_daily 1 (two_hours_file ''Flow one'') None))"
proof -
  have s: "fst (aggregate_to_daily 0 (two_hours_file ''Flow one'') None) = DailySaved 1"
    by code_simp
  from daily_output_determined_by_hourly_and_clock [where now = 0 and now' = 1
      and hourly = "two_hours_file ''Flow one''" and daily = None and daily' = "Some []"
      and n = 1]
  have "fst (aggregate_to_daily 0 (two_hours_file ''Flow one'') None) = DailySaved 1
     \<longrightarrow> snd (aggregate_to_daily 0 (two_hours_file ''Flow one'') None) =
           snd (aggregate_to_daily 0 (two_hours_file ''Flow one'') (Some []))
       \<and> fst (aggregate_to_daily 1 (two_hours_file ''Flow one'') None) = DailySaved 1
       \<and> unstamped (snd (aggregate_to_daily 0 (two_hours_file ''Flow one'') None)) =
           unstamped (snd (aggregate_to_daily 1 (two_hours_file ''Flow one'') None))"
    by (rule conjunct2)
  with s show ?thesis by blast
qed

text \<open>
  The claim as written fails: two passes over the same hourly file at different readings of
  the clock write different daily files.
\<close>

theorem daily_output_depends_on_clock:
  "snd (aggregate_to_daily 0 (two_hours_file ''Flow one'') None) \<noteq>
   snd (aggregate_to_daily 1 (two_hours_file ''Flow one'') None)"
  by code_simp






section \<open>Properties of the collection loop and the summary\<close>






end
